theory Spec2Isabelle
  imports Main "HOL-Library.Word"
begin

unbundle bit_operations_syntax

section \<open>Data model of kernel/memremap.c\<close>

text \<open>
  \<open>resource_size_t\<close>, \<open>size_t\<close> and \<open>unsigned long\<close> are 64-bit unsigned integers;
  arithmetic on them wraps. A \<open>void *\<close> is the 64-bit address it holds, \<open>NULL\<close> being 0.
\<close>

type_synonym resource_size_t = "64 word"
type_synonym ptr = "64 word"
type_synonym device = nat

definition NULL :: ptr where
  "NULL = 0"

text \<open>\<open>struct resource\<close>: only \<open>start\<close> and \<open>end\<close> (inclusive) are read by this file.\<close>

record resource =
  res_start :: resource_size_t
  res_end :: resource_size_t

text \<open>\<open>struct dev_pagemap\<close> and \<open>struct page_map\<close>. The \<open>ref\<close> field is never written
  or read in this file. A page_map is written once, before it is inserted in the radix tree,
  so the tree is modelled as holding the record itself.\<close>

record dev_pagemap =
  pgmap_dev :: device

record page_map =
  pm_res :: resource
  pgmap :: dev_pagemap

text \<open>The three results of \<open>region_intersects\<close>.\<close>

datatype region = REGION_INTERSECTS | REGION_DISJOINT | REGION_MIXED

text \<open>
  Everything this file calls but does not define: architecture constants and macros,
  the range classifier, the mapping primitives, the allocator and the memory hotplug calls.
  Their results are parameters of the model.
\<close>

record env =
  PA_SECTION_SHIFT :: nat
  PAGE_SHIFT :: nat
  region_intersects :: "resource_size_t \<Rightarrow> resource_size_t \<Rightarrow> region"
  PageHighMem :: "resource_size_t \<Rightarrow> bool"
  va :: "resource_size_t \<Rightarrow> ptr"
  ioremap_cache :: "resource_size_t \<Rightarrow> resource_size_t \<Rightarrow> ptr"
  ioremap_wt :: "resource_size_t \<Rightarrow> resource_size_t \<Rightarrow> ptr"
  devres_alloc_node_fails :: bool
  radix_tree_nomem :: "resource_size_t \<Rightarrow> bool"
  dev_to_node :: "device \<Rightarrow> int"
  numa_mem_id :: int
  arch_add_memory :: "int \<Rightarrow> resource_size_t \<Rightarrow> resource_size_t \<Rightarrow> int"

text \<open>What the code does that is visible outside it, in the order it happens.\<close>

datatype event =
    Warn_memremap_mixed resource_size_t resource_size_t
  | Warn_memremap_ram resource_size_t resource_size_t
  | Call_ioremap_cache resource_size_t resource_size_t
  | Call_ioremap_wt resource_size_t resource_size_t
  | Warn_pages_mixed resource
  | Dev_err_collides device resource device
  | Dev_err_failed device int
  | Call_radix_tree_delete resource_size_t
  | Call_arch_add_memory int resource_size_t resource_size_t
  | Call_arch_remove_memory resource_size_t resource_size_t

text \<open>
  The global state: the radix tree \<open>pgmap_radix\<close>, the page_maps handed to \<open>devres_add\<close>
  (each with \<open>devm_memremap_pages_release\<close> as its release function) and the log of events.
\<close>

record kstate =
  pgmap_radix :: "resource_size_t \<rightharpoonup> page_map"
  devres :: "(device \<times> page_map) list"
  klog :: "event list"

text \<open>Modelled from the spec: the flag bits of \<open>linux/io.h\<close> and the error numbers of
  \<open>errno.h\<close>, which are not in \<open>kernel/memremap.c\<close>. The flags are the spec's combinable
  WriteBack and WriteThrough, two distinct bits; the error numbers stand for its
  AmbiguousRegion (\<open>ENXIO\<close>), ResourceExhausted (\<open>ENOMEM\<close>) and AlreadyClaimed
  (\<open>EBUSY\<close>), with the values the kernel gives them.\<close>

definition MEMREMAP_WB :: "64 word" where
  "MEMREMAP_WB = 1"

definition MEMREMAP_WT :: "64 word" where
  "MEMREMAP_WT = 2"

definition ENXIO :: int where
  "ENXIO = 6"

definition ENOMEM :: int where
  "ENOMEM = 12"

definition EBUSY :: int where
  "EBUSY = 16"

definition EEXIST :: int where
  "EEXIST = 17"

section \<open>memremap\<close>

definition try_ram_remap :: "env \<Rightarrow> resource_size_t \<Rightarrow> resource_size_t \<Rightarrow> ptr" where
  "try_ram_remap E offset sz =
     (if \<not> PageHighMem E (drop_bit (PAGE_SHIFT E) offset) then va E offset else NULL)"

text \<open>
  \<open>memremap\<close> returns the pointer and the events it caused. The inner triple is the state
  of \<open>addr\<close>, \<open>flags\<close> and the events after the \<open>MEMREMAP_WB\<close> block.
\<close>

definition memremap ::
  "env \<Rightarrow> resource_size_t \<Rightarrow> resource_size_t \<Rightarrow> 64 word \<Rightarrow> ptr \<times> event list" where
  "memremap E offset sz flags =
     (let is_ram = region_intersects E offset sz in
      if is_ram = REGION_MIXED then (NULL, [Warn_memremap_mixed offset sz])
      else
        (case
           (if flags AND MEMREMAP_WB \<noteq> 0 then
              (let flags' = flags AND NOT MEMREMAP_WB;
                   addr = (if is_ram = REGION_INTERSECTS then try_ram_remap E offset sz
                           else NULL)
               in if addr = NULL
                  then (ioremap_cache E offset sz, flags', [Call_ioremap_cache offset sz])
                  else (addr, flags', []))
            else (NULL, flags, []))
         of (addr, flags', evs) \<Rightarrow>
           if addr = NULL \<and> is_ram = REGION_INTERSECTS \<and> flags' \<noteq> 0
           then (NULL, evs @ [Warn_memremap_ram offset sz])
           else if addr = NULL \<and> flags' AND MEMREMAP_WT \<noteq> 0
           then (ioremap_wt E offset sz, evs @ [Call_ioremap_wt offset sz])
           else (addr, evs)))"

section \<open>The section registry\<close>

definition SECTION_SIZE :: "env \<Rightarrow> resource_size_t" where
  "SECTION_SIZE E = push_bit (PA_SECTION_SHIFT E) 1"

text \<open>Modelled from the spec: the radix tree of \<open>lib/radix-tree.c\<close>, which is not in
  \<open>kernel/memremap.c\<close>, as the spec's mapping from section number to owner record with
  unique keys. \<open>radix_tree_insert\<close> fails with \<open>-ENOMEM\<close> when it cannot allocate a node
  and with \<open>-EEXIST\<close> on an occupied slot; \<open>radix_tree_delete\<close> of an absent index leaves
  the tree as it is. Each deletion is logged.\<close>

definition radix_tree_insert ::
  "env \<Rightarrow> resource_size_t \<Rightarrow> page_map \<Rightarrow> kstate \<Rightarrow> int \<times> kstate" where
  "radix_tree_insert E index item s =
     (if radix_tree_nomem E index then (- ENOMEM, s)
      else if pgmap_radix s index \<noteq> None then (- EEXIST, s)
      else (0, s\<lparr>pgmap_radix := (pgmap_radix s)(index \<mapsto> item)\<rparr>))"

definition radix_tree_delete :: "resource_size_t \<Rightarrow> kstate \<Rightarrow> kstate" where
  "radix_tree_delete index s =
     s\<lparr>pgmap_radix := (pgmap_radix s)(index := None),
       klog := klog s @ [Call_radix_tree_delete index]\<rparr>"

definition radix_tree_lookup :: "kstate \<Rightarrow> resource_size_t \<Rightarrow> page_map option" where
  "radix_tree_lookup s index = pgmap_radix s index"

definition find_dev_pagemap :: "env \<Rightarrow> kstate \<Rightarrow> resource_size_t \<Rightarrow> dev_pagemap option" where
  "find_dev_pagemap E s phys =
     (case radix_tree_lookup s (drop_bit (PA_SECTION_SHIFT E) phys) of
        None \<Rightarrow> None
      | Some page_map \<Rightarrow> Some (pgmap page_map))"

text \<open>The loop of \<open>pgmap_radix_release\<close>. The key is a 64-bit integer, so
  \<open>key += SECTION_SIZE\<close> wraps; a run that never leaves the loop is the value \<open>None\<close>.\<close>

partial_function (option) pgmap_radix_release_loop ::
  "env \<Rightarrow> resource \<Rightarrow> resource_size_t \<Rightarrow> kstate \<Rightarrow> kstate option" where
  "pgmap_radix_release_loop E res key s =
     (if key \<le> res_end res
      then pgmap_radix_release_loop E res (key + SECTION_SIZE E)
             (radix_tree_delete (drop_bit (PA_SECTION_SHIFT E) key) s)
      else Some s)"

definition pgmap_radix_release :: "env \<Rightarrow> resource \<Rightarrow> kstate \<Rightarrow> kstate option" where
  "pgmap_radix_release E res s = pgmap_radix_release_loop E res (res_start res) s"

text \<open>Modelled from the spec: \<open>resource_size\<close> of \<open>linux/ioport.h\<close> and \<open>ALIGN\<close> of
  \<open>linux/kernel.h\<close>, which are not in \<open>kernel/memremap.c\<close>: the length of a range with an
  inclusive end, and rounding up to a multiple of a power of two. \<open>align_start\<close> and
  \<open>align_size\<close> are the two local variables of that name.\<close>

definition resource_size :: "resource \<Rightarrow> resource_size_t" where
  "resource_size res = res_end res - res_start res + 1"

definition ALIGN :: "resource_size_t \<Rightarrow> resource_size_t \<Rightarrow> resource_size_t" where
  "ALIGN x a = (x + (a - 1)) AND NOT (a - 1)"

definition align_start :: "env \<Rightarrow> resource \<Rightarrow> resource_size_t" where
  "align_start E res = res_start res AND NOT (SECTION_SIZE E - 1)"

definition align_size :: "env \<Rightarrow> resource \<Rightarrow> resource_size_t" where
  "align_size E res = ALIGN (resource_size res) (SECTION_SIZE E)"

definition devm_memremap_pages_release :: "env \<Rightarrow> page_map \<Rightarrow> kstate \<Rightarrow> kstate option" where
  "devm_memremap_pages_release E page_map s =
     (let res = pm_res page_map in
      case pgmap_radix_release E res s of
        None \<Rightarrow> None
      | Some s' \<Rightarrow>
          Some (s'\<lparr>klog := klog s' @
                  [Call_arch_remove_memory (align_start E res) (align_size E res)]\<rparr>))"

section \<open>devm_memremap_pages\<close>

text \<open>The insertion loop of \<open>devm_memremap_pages\<close>; it yields \<open>error\<close> and the state.\<close>

partial_function (option) devm_memremap_pages_loop ::
  "env \<Rightarrow> device \<Rightarrow> resource \<Rightarrow> page_map \<Rightarrow> resource_size_t \<Rightarrow> kstate \<Rightarrow> (int \<times> kstate) option" where
  "devm_memremap_pages_loop E dev res page_map key s =
     (if key \<le> res_end res then
        (case find_dev_pagemap E s key of
           Some dup \<Rightarrow>
             Some (- EBUSY, s\<lparr>klog := klog s @ [Dev_err_collides dev res (pgmap_dev dup)]\<rparr>)
         | None \<Rightarrow>
             (case radix_tree_insert E (drop_bit (PA_SECTION_SHIFT E) key) page_map s of
                (error, s') \<Rightarrow>
                  if error \<noteq> 0
                  then Some (error, s'\<lparr>klog := klog s' @ [Dev_err_failed dev error]\<rparr>)
                  else devm_memremap_pages_loop E dev res page_map (key + SECTION_SIZE E) s'))
      else Some (0, s))"

text \<open>The result is \<open>Inl error\<close> for \<open>ERR_PTR(error)\<close> and \<open>Inr\<close> of the address otherwise.
  Both error labels run \<open>pgmap_radix_release\<close>; \<open>devres_alloc_node\<close> and \<open>devres_free\<close>
  only allocate and free the page_map.\<close>

definition devm_memremap_pages ::
  "env \<Rightarrow> device \<Rightarrow> resource \<Rightarrow> kstate \<Rightarrow> ((int + ptr) \<times> kstate) option" where
  "devm_memremap_pages E dev res s =
     (let is_ram = region_intersects E (res_start res) (resource_size res) in
      if is_ram = REGION_MIXED
      then Some (Inl (- ENXIO), s\<lparr>klog := klog s @ [Warn_pages_mixed res]\<rparr>)
      else if is_ram = REGION_INTERSECTS then Some (Inr (va E (res_start res)), s)
      else if devres_alloc_node_fails E then Some (Inl (- ENOMEM), s)
      else
        (let page_map = \<lparr>pm_res = res, pgmap = \<lparr>pgmap_dev = dev\<rparr>\<rparr> in
         case devm_memremap_pages_loop E dev res page_map (res_start res) s of
           None \<Rightarrow> None
         | Some (error, s1) \<Rightarrow>
             if error \<noteq> 0
             then map_option (Pair (Inl error)) (pgmap_radix_release E res s1)
             else
               (let nid = (if dev_to_node E dev < 0 then numa_mem_id E else dev_to_node E dev);
                    error' = arch_add_memory E nid (align_start E res) (align_size E res);
                    s2 = s1\<lparr>klog := klog s1 @
                            [Call_arch_add_memory nid (align_start E res) (align_size E res)]\<rparr>
                in if error' \<noteq> 0
                   then map_option (Pair (Inl error')) (pgmap_radix_release E res s2)
                   else Some (Inr (va E (res_start res)),
                              s2\<lparr>devres := devres s2 @ [(dev, page_map)]\<rparr>))))"

section \<open>The walk over the sections of a range\<close>

text \<open>
  Both loops visit the keys \<open>start\<close>, \<open>start + SECTION_SIZE\<close>, ... while the key is at
  most \<open>end\<close>. \<open>walk_wraps\<close> says that the walk from \<open>key\<close> reaches a key in the last
  section of the 64-bit address space that is still at most \<open>end\<close>: the next addition
  wraps around. \<open>walk_length\<close> counts the iterations of a walk that does not wrap and
  \<open>walk_indices\<close> lists the radix-tree indices of its keys.
\<close>

definition walk_wraps :: "env \<Rightarrow> resource \<Rightarrow> resource_size_t \<Rightarrow> bool" where
  "walk_wraps E res key \<longleftrightarrow>
     2 ^ 64 + unat key mod 2 ^ PA_SECTION_SHIFT E \<le> unat (res_end res) + 2 ^ PA_SECTION_SHIFT E"

definition walk_length :: "env \<Rightarrow> resource \<Rightarrow> resource_size_t \<Rightarrow> nat" where
  "walk_length E res key =
     (if key \<le> res_end res
      then Suc ((unat (res_end res) - unat key) div 2 ^ PA_SECTION_SHIFT E)
      else 0)"

primrec walk_indices :: "env \<Rightarrow> resource_size_t \<Rightarrow> nat \<Rightarrow> resource_size_t list" where
  "walk_indices E key 0 = []"
| "walk_indices E key (Suc n) =
     drop_bit (PA_SECTION_SHIFT E) key # walk_indices E (key + SECTION_SIZE E) n"

definition section_indices :: "env \<Rightarrow> resource \<Rightarrow> resource_size_t list" where
  "section_indices E res = walk_indices E (res_start res) (walk_length E res (res_start res))"

section \<open>Concrete machines\<close>

text \<open>A machine with 2 MiB sections and 4 KiB pages on which every call of a collaborator
  succeeds; \<open>env_dev\<close> classifies every range as disjoint from System RAM, \<open>env_ram\<close> as
  System RAM in low memory, \<open>env_highmem\<close> as System RAM in high memory, \<open>env_mixed\<close>
  as mixed.\<close>

definition env_dev :: env where
  "env_dev = \<lparr>PA_SECTION_SHIFT = 21, PAGE_SHIFT = 12,
     region_intersects = (\<lambda>_ _. REGION_DISJOINT), PageHighMem = (\<lambda>_. False),
     va = (\<lambda>x. x + 0xFFFF800000000000),
     ioremap_cache = (\<lambda>x _. x + 0xFFFFC90000000000),
     ioremap_wt = (\<lambda>x _. x + 0xFFFFC90000000000),
     devres_alloc_node_fails = False, radix_tree_nomem = (\<lambda>_. False),
     dev_to_node = (\<lambda>_. 0), numa_mem_id = 0,
     arch_add_memory = (\<lambda>_ _ _. 0)\<rparr>"

definition env_ram :: env where
  "env_ram = env_dev\<lparr>region_intersects := (\<lambda>_ _. REGION_INTERSECTS)\<rparr>"

definition env_highmem :: env where
  "env_highmem = env_ram\<lparr>PageHighMem := (\<lambda>_. True)\<rparr>"

definition env_mixed :: env where
  "env_mixed = env_dev\<lparr>region_intersects := (\<lambda>_ _. REGION_MIXED)\<rparr>"

definition state0 :: kstate where
  "state0 = \<lparr>pgmap_radix = Map.empty, devres = [], klog = []\<rparr>"

definition res_page :: resource where
  "res_page = \<lparr>res_start = 0x10000000, res_end = 0x10000FFF\<rparr>"

text \<open>The ranges of the scenarios: \<open>res_a\<close> is one whole section, \<open>res_b\<close> starts in
  the middle of that section and ends in the middle of the next one, \<open>res_top\<close> lies in
  the last section of the address space. \<open>env_hotplug_fails\<close> is \<open>env_dev\<close> with a
  failing \<open>arch_add_memory\<close>.\<close>

definition res_a :: resource where
  "res_a = \<lparr>res_start = 0x10000000, res_end = 0x101FFFFF\<rparr>"

definition res_b :: resource where
  "res_b = \<lparr>res_start = 0x10100000, res_end = 0x102FFFFF\<rparr>"

definition res_top :: resource where
  "res_top = \<lparr>res_start = 0xFFFFFFFFFFE00000, res_end = 0xFFFFFFFFFFFFFFFE\<rparr>"

definition page_map_a :: page_map where
  "page_map_a = \<lparr>pm_res = res_a, pgmap = \<lparr>pgmap_dev = 1\<rparr>\<rparr>"

definition page_map_b :: page_map where
  "page_map_b = \<lparr>pm_res = res_b, pgmap = \<lparr>pgmap_dev = 2\<rparr>\<rparr>"

definition env_hotplug_fails :: env where
  "env_hotplug_fails = env_dev\<lparr>arch_add_memory := (\<lambda>_ _ _. - 12)\<rparr>"

text \<open>\<open>state_a\<close>: device 1 has claimed \<open>res_a\<close> in the empty state. \<open>state_ab\<close>: device 2
  has then tried to claim \<open>res_b\<close>. \<open>state_b\<close>: device 2 has claimed \<open>res_b\<close> in the
  empty state.\<close>

definition state_a :: kstate where
  "state_a = \<lparr>pgmap_radix = [0x80 \<mapsto> page_map_a], devres = [(1, page_map_a)],
     klog = [Call_arch_add_memory 0 0x10000000 0x200000]\<rparr>"

definition state_ab :: kstate where
  "state_ab = \<lparr>pgmap_radix = Map.empty, devres = [(1, page_map_a)],
     klog = [Call_arch_add_memory 0 0x10000000 0x200000, Dev_err_collides 2 res_b 1,
             Call_radix_tree_delete 0x80]\<rparr>"

definition state_b :: kstate where
  "state_b = \<lparr>pgmap_radix = [0x80 \<mapsto> page_map_b], devres = [(2, page_map_b)],
     klog = [Call_arch_add_memory 0 0x10000000 0x200000]\<rparr>"

section \<open>Properties of memremap\<close>

lemma wt_pending_after_wb:
  assumes "flags AND MEMREMAP_WT \<noteq> 0" and "flags AND NOT MEMREMAP_WB = (0::64 word)"
  shows False
proof -
  have "flags AND MEMREMAP_WT = (flags AND NOT MEMREMAP_WB) AND MEMREMAP_WT"
    unfolding MEMREMAP_WT_def MEMREMAP_WB_def
    by (rule bit_word_eqI) (auto simp: bit_simps)
  with assms show False by simp
qed

lemma resource_size_res_page: "resource_size res_page = 0x1000"
  by (simp add: resource_size_def res_page_def)

text \<open>
  C2, as amended. On a range classified as System RAM, with both the write-back and the
  write-through flag set, the write-back stage runs first: where the direct map is
  available the call succeeds with the direct-map address and no mapping primitive is
  invoked; otherwise \<open>ioremap_cache\<close> is tried, and only when that yields nothing does
  the call fail with the aliasing diagnostic. The write-through mapping is never attempted.
\<close>

theorem memremap_ram_wb_wt:
  assumes "region_intersects E offset sz = REGION_INTERSECTS"
    and "flags AND MEMREMAP_WB \<noteq> 0" and "flags AND MEMREMAP_WT \<noteq> 0"
  shows "memremap E offset sz flags =
     (if try_ram_remap E offset sz \<noteq> NULL then (try_ram_remap E offset sz, [])
      else if ioremap_cache E offset sz \<noteq> NULL
      then (ioremap_cache E offset sz, [Call_ioremap_cache offset sz])
      else (NULL, [Call_ioremap_cache offset sz, Warn_memremap_ram offset sz]))"
proof -
  have "flags AND NOT MEMREMAP_WB \<noteq> 0"
    using assms(3) wt_pending_after_wb by blast
  with assms(1,2) show ?thesis
    by (simp add: memremap_def Let_def)
qed

theorem memremap_ram_wb_wt_witness:
  "region_intersects env_highmem 0x10000000 0x1000 = REGION_INTERSECTS \<and>
   (MEMREMAP_WB OR MEMREMAP_WT) AND MEMREMAP_WB \<noteq> 0 \<and>
   (MEMREMAP_WB OR MEMREMAP_WT) AND MEMREMAP_WT \<noteq> 0 \<and>
   memremap env_highmem 0x10000000 0x1000 (MEMREMAP_WB OR MEMREMAP_WT) =
     (0xFFFFC90010000000, [Call_ioremap_cache 0x10000000 0x1000])"
proof -
  have 1: "region_intersects env_highmem 0x10000000 0x1000 = REGION_INTERSECTS"
    by (simp add: env_highmem_def env_ram_def env_dev_def)
  have 2: "(MEMREMAP_WB OR MEMREMAP_WT) AND MEMREMAP_WB \<noteq> 0"
    by (simp add: MEMREMAP_WB_def MEMREMAP_WT_def)
  have 3: "(MEMREMAP_WB OR MEMREMAP_WT) AND MEMREMAP_WT \<noteq> 0"
    by (simp add: MEMREMAP_WB_def MEMREMAP_WT_def)
  show ?thesis
    using memremap_ram_wb_wt [OF 1 2 3] 1 2 3
    by (simp add: try_ram_remap_def NULL_def env_highmem_def env_ram_def env_dev_def)
qed

text \<open>
  C2 as stated fails: on System RAM in low memory the call with both flags succeeds and
  returns the direct-map address.
\<close>

theorem memremap_ram_wb_wt_counterexample:
  "region_intersects env_ram 0x10000000 0x1000 = REGION_INTERSECTS \<and>
   memremap env_ram 0x10000000 0x1000 (MEMREMAP_WB OR MEMREMAP_WT) =
     (va env_ram 0x10000000, []) \<and>
   va env_ram 0x10000000 \<noteq> NULL"
  by (simp add: memremap_def Let_def try_ram_remap_def MEMREMAP_WB_def
      MEMREMAP_WT_def env_ram_def env_dev_def NULL_def)

text \<open>
  C4, as amended. On a range classified as System RAM, \<open>memremap\<close> with only the
  write-back flag does one of two things. When the direct map is available (the page is
  not in high memory and has a linear address) it returns the direct-map address and
  invokes no mapping primitive. When the direct map is unavailable it falls back to the
  write-back mapping primitive: it calls \<open>ioremap_cache\<close> once and returns what that
  returns. Nothing else happens in either case.
\<close>

theorem memremap_ram_wb_direct_map:
  assumes "region_intersects E offset sz = REGION_INTERSECTS"
  shows "memremap E offset sz MEMREMAP_WB =
     (if \<not> PageHighMem E (drop_bit (PAGE_SHIFT E) offset) \<and> va E offset \<noteq> NULL
      then (va E offset, [])
      else (ioremap_cache E offset sz, [Call_ioremap_cache offset sz]))"
  using assms
  by (simp add: memremap_def Let_def try_ram_remap_def MEMREMAP_WB_def)

theorem memremap_ram_wb_direct_map_witness:
  "region_intersects env_ram 0x10000000 0x1000 = REGION_INTERSECTS \<and>
   memremap env_ram 0x10000000 0x1000 MEMREMAP_WB = (0xFFFF800010000000, []) \<and>
   region_intersects env_highmem 0x10000000 0x1000 = REGION_INTERSECTS \<and>
   memremap env_highmem 0x10000000 0x1000 MEMREMAP_WB =
     (0xFFFFC90010000000, [Call_ioremap_cache 0x10000000 0x1000])"
proof -
  have 1: "region_intersects env_ram 0x10000000 0x1000 = REGION_INTERSECTS"
    by (simp add: env_ram_def env_dev_def)
  have 2: "region_intersects env_highmem 0x10000000 0x1000 = REGION_INTERSECTS"
    by (simp add: env_highmem_def env_ram_def env_dev_def)
  have 3: "memremap env_ram 0x10000000 0x1000 MEMREMAP_WB = (0xFFFF800010000000, [])"
    using memremap_ram_wb_direct_map [OF 1]
    by (simp add: env_ram_def env_dev_def NULL_def)
  have 4: "memremap env_highmem 0x10000000 0x1000 MEMREMAP_WB =
      (0xFFFFC90010000000, [Call_ioremap_cache 0x10000000 0x1000])"
    using memremap_ram_wb_direct_map [OF 2]
    by (simp add: env_highmem_def env_ram_def env_dev_def)
  from 1 2 3 4 show ?thesis
    by blast
qed

text \<open>
  C4 as stated fails: on System RAM in high memory \<open>try_ram_remap\<close> yields nothing and
  the call falls back to \<open>ioremap_cache\<close>.
\<close>

theorem memremap_ram_wb_counterexample:
  "region_intersects env_highmem 0x10000000 0x1000 = REGION_INTERSECTS \<and>
   memremap env_highmem 0x10000000 0x1000 MEMREMAP_WB =
     (ioremap_cache env_highmem 0x10000000 0x1000, [Call_ioremap_cache 0x10000000 0x1000]) \<and>
   ioremap_cache env_highmem 0x10000000 0x1000 \<noteq> va env_highmem 0x10000000"
  by (simp add: memremap_def Let_def try_ram_remap_def MEMREMAP_WB_def
      MEMREMAP_WT_def env_highmem_def env_ram_def env_dev_def NULL_def)

text \<open>
  C10. On a range that is not classified as mixed, \<open>memremap\<close> with no flag set returns
  \<open>NULL\<close> and attempts no mapping, whether or not the range is System RAM.
\<close>

theorem memremap_no_flags:
  assumes "region_intersects E offset sz \<noteq> REGION_MIXED"
  shows "memremap E offset sz 0 = (NULL, [])"
  using assms by (simp add: memremap_def Let_def)

theorem memremap_no_flags_witness:
  "region_intersects env_ram 0x10000000 0x1000 \<noteq> REGION_MIXED \<and>
   memremap env_ram 0x10000000 0x1000 0 = (NULL, [])"
proof -
  have 1: "region_intersects env_ram 0x10000000 0x1000 \<noteq> REGION_MIXED"
    by (simp add: env_ram_def env_dev_def)
  show ?thesis
    using memremap_no_flags [OF 1] 1 by simp
qed

section \<open>Properties of devm_memremap_pages that need no loop\<close>

text \<open>
  C5. On a range classified as mixed, \<open>memremap\<close> (whatever the flags) returns \<open>NULL\<close>
  with the mixed-range warning and attempts no mapping, and \<open>devm_memremap_pages\<close>
  returns \<open>ERR_PTR(-ENXIO)\<close>; the radix tree and the devres list are unchanged and the
  only event is the warning.
\<close>

theorem mixed_range_rejected:
  assumes "region_intersects E (res_start res) (resource_size res) = REGION_MIXED"
  shows "memremap E (res_start res) (resource_size res) flags =
           (NULL, [Warn_memremap_mixed (res_start res) (resource_size res)]) \<and>
         devm_memremap_pages E dev res s =
           Some (Inl (- ENXIO), s\<lparr>klog := klog s @ [Warn_pages_mixed res]\<rparr>)"
  using assms by (simp add: memremap_def devm_memremap_pages_def)

theorem mixed_range_rejected_witness:
  "region_intersects env_mixed (res_start res_page) (resource_size res_page) = REGION_MIXED \<and>
   memremap env_mixed (res_start res_page) (resource_size res_page) MEMREMAP_WB =
     (NULL, [Warn_memremap_mixed 0x10000000 0x1000]) \<and>
   devm_memremap_pages env_mixed 1 res_page state0 =
     Some (Inl (- 6), state0\<lparr>klog := [Warn_pages_mixed res_page]\<rparr>)"
proof -
  have 1: "region_intersects env_mixed (res_start res_page) (resource_size res_page) = REGION_MIXED"
    by (simp add: env_mixed_def env_dev_def)
  show ?thesis
    using mixed_range_rejected [OF 1, of MEMREMAP_WB 1 state0] 1
    by (simp add: resource_size_res_page ENXIO_def) (simp add: res_page_def state0_def)
qed

text \<open>
  C6. On a range classified as System RAM, \<open>devm_memremap_pages\<close> returns the direct-map
  address of the start of the range; the state is unchanged: nothing is inserted in the
  radix tree, no hotplug call is made and no release hook is registered.
\<close>

theorem system_ram_claim_short_circuits:
  assumes "region_intersects E (res_start res) (resource_size res) = REGION_INTERSECTS"
  shows "devm_memremap_pages E dev res s = Some (Inr (va E (res_start res)), s)"
  using assms by (simp add: devm_memremap_pages_def)

theorem system_ram_claim_short_circuits_witness:
  "region_intersects env_ram (res_start res_page) (resource_size res_page) = REGION_INTERSECTS \<and>
   devm_memremap_pages env_ram 1 res_page state0 = Some (Inr 0xFFFF800010000000, state0)"
proof -
  have 1: "region_intersects env_ram (res_start res_page) (resource_size res_page) = REGION_INTERSECTS"
    by (simp add: env_ram_def env_dev_def)
  show ?thesis
    using system_ram_claim_short_circuits [OF 1, of 1 state0] 1
    by (simp add: env_ram_def env_dev_def res_page_def)
qed

section \<open>The section walk\<close>

lemma floor_le_top_gen:
  fixes S Q k :: nat
  assumes "0 < S" and "k < S * Q"
  shows "k + S \<le> S * Q + k mod S"
proof -
  have "k div S < Q" using assms
    by (simp add: less_mult_imp_div_less mult.commute)
  then have "Suc (k div S) \<le> Q" by simp
  then have "S * Suc (k div S) \<le> S * Q" by (rule mult_le_mono2)
  then have "S * (k div S) + S \<le> S * Q" by simp
  moreover have "k = S * (k div S) + k mod S" by simp
  ultimately show ?thesis by linarith
qed

lemma nowrap_gen:
  fixes S Q k e :: nat
  assumes "0 < S" and "k \<le> e" and "e + S < S * Q + k mod S"
  shows "k + S < S * Q"
proof (rule ccontr)
  assume "\<not> k + S < S * Q"
  then have a: "S * Q \<le> k + S" by simp
  have "Q \<le> Suc (k div S)"
  proof (rule ccontr)
    assume "\<not> Q \<le> Suc (k div S)"
    then have "Suc (Suc (k div S)) \<le> Q" by simp
    then have "S * Suc (Suc (k div S)) \<le> S * Q" by (rule mult_le_mono2)
    then have "S * (k div S) + S + S \<le> S * Q" by simp
    moreover have "k mod S < S" using assms(1) by simp
    moreover have "k = S * (k div S) + k mod S" by simp
    ultimately show False using a by linarith
  qed
  then have "S * Q \<le> S * Suc (k div S)" by (rule mult_le_mono2)
  then have "S * Q \<le> S * (k div S) + S" by simp
  moreover have "k = S * (k div S) + k mod S" by simp
  ultimately show False using assms(2,3) by linarith
qed

lemma two_64_split: "sh < 64 \<Longrightarrow> (2::nat) ^ 64 = 2 ^ sh * 2 ^ (64 - sh)"
  by (metis less_imp_le_nat le_add_diff_inverse power_add)

lemma unat_two_power: 
  assumes "n < 64" shows "unat (2 ^ n :: 64 word) = 2 ^ n"
proof -
  have "(2 ^ n :: 64 word) = of_nat (2 ^ n)" by simp
  then have "unat (2 ^ n :: 64 word) = 2 ^ n mod 2 ^ LENGTH(64)"
    by (simp only: unat_of_nat)
  moreover have "n < LENGTH(64)" using assms by simp
  then have "(2::nat) ^ n < 2 ^ LENGTH(64)"
    by (rule power_strict_increasing) simp
  ultimately show ?thesis by (simp only: mod_less)
qed

lemma unat_SECTION_SIZE:
  "PA_SECTION_SHIFT E < 64 \<Longrightarrow> unat (SECTION_SIZE E) = 2 ^ PA_SECTION_SHIFT E"
  by (simp add: SECTION_SIZE_def unat_two_power)

lemma unat_lt_2_64: "unat (x :: 64 word) < 2 ^ 64"
  using unsigned_less [of x, where 'a = nat] by simp

lemma unat_add_64: "unat (x + y :: 64 word) = (unat x + unat y) mod 2 ^ 64"
  by (simp add: unat_word_ariths)

lemma step_nowrap:
  assumes sh: "PA_SECTION_SHIFT E < 64" and nw: "\<not> walk_wraps E res key"
    and le: "key \<le> res_end res"
  shows "unat (key + SECTION_SIZE E) = unat key + 2 ^ PA_SECTION_SHIFT E"
proof -
  define S where "S = (2::nat) ^ PA_SECTION_SHIFT E"
  define Q where "Q = (2::nat) ^ (64 - PA_SECTION_SHIFT E)"
  have W: "(2::nat) ^ 64 = S * Q"
    using sh by (simp only: S_def Q_def two_64_split)
  have S0: "0 < S" by (simp add: S_def)
  have 1: "unat key \<le> unat (res_end res)"
    using le by (simp add: word_le_nat_alt)
  have 2: "unat (res_end res) + S < S * Q + unat key mod S"
    using nw unfolding walk_wraps_def W S_def [symmetric] by simp
  have "unat key + S < S * Q"
    using S0 1 2 by (rule nowrap_gen)
  then have "unat key + unat (SECTION_SIZE E) < 2 ^ 64"
    unfolding W using sh by (simp only: unat_SECTION_SIZE S_def)
  then have "(unat key + unat (SECTION_SIZE E)) mod 2 ^ 64 = unat key + unat (SECTION_SIZE E)"
    by (rule mod_less)
  then show ?thesis
    using sh by (simp only: unat_add_64 unat_SECTION_SIZE)
qed

lemma step_residue:
  assumes sh: "PA_SECTION_SHIFT E < 64"
  shows "unat (key + SECTION_SIZE E) mod 2 ^ PA_SECTION_SHIFT E = unat key mod 2 ^ PA_SECTION_SHIFT E"
proof -
  define S where "S = (2::nat) ^ PA_SECTION_SHIFT E"
  define Q where "Q = (2::nat) ^ (64 - PA_SECTION_SHIFT E)"
  have W: "(2::nat) ^ 64 = S * Q"
    using sh by (simp only: S_def Q_def two_64_split)
  have "unat (key + SECTION_SIZE E) = (unat key + S) mod (S * Q)"
    using sh by (simp only: unat_add_64 unat_SECTION_SIZE W S_def)
  then have "unat (key + SECTION_SIZE E) mod S = (unat key + S) mod S"
    by (simp add: mod_mult2_eq)
  then show ?thesis by (simp add: S_def)
qed

lemma walk_wraps_step:
  "PA_SECTION_SHIFT E < 64 \<Longrightarrow>
   walk_wraps E res (key + SECTION_SIZE E) = walk_wraps E res key"
  by (simp only: walk_wraps_def step_residue)

lemma walk_wraps_le:
  assumes sh: "PA_SECTION_SHIFT E < 64" and w: "walk_wraps E res key"
  shows "key \<le> res_end res"
proof -
  define S where "S = (2::nat) ^ PA_SECTION_SHIFT E"
  define Q where "Q = (2::nat) ^ (64 - PA_SECTION_SHIFT E)"
  have W: "(2::nat) ^ 64 = S * Q"
    using sh by (simp only: S_def Q_def two_64_split)
  have S0: "0 < S" by (simp add: S_def)
  have "unat key < S * Q" using unat_lt_2_64 [of key] unfolding W .
  with S0 have "unat key + S \<le> S * Q + unat key mod S" by (rule floor_le_top_gen)
  moreover have "S * Q + unat key mod S \<le> unat (res_end res) + S"
    using w unfolding walk_wraps_def W S_def [symmetric] .
  ultimately have "unat key \<le> unat (res_end res)" by linarith
  then show ?thesis by (simp add: word_le_nat_alt)
qed



lemma walk_length_step:
  assumes sh: "PA_SECTION_SHIFT E < 64" and nw: "\<not> walk_wraps E res key"
    and le: "key \<le> res_end res"
  shows "walk_length E res key = Suc (walk_length E res (key + SECTION_SIZE E))"
proof -
  define S where "S = (2::nat) ^ PA_SECTION_SHIFT E"
  have S0: "0 < S" by (simp add: S_def)
  have k': "unat (key + SECTION_SIZE E) = unat key + S"
    using step_nowrap [OF sh nw le] by (simp add: S_def)
  have 1: "unat key \<le> unat (res_end res)"
    using le by (simp add: word_le_nat_alt)
  show ?thesis
  proof (cases "key + SECTION_SIZE E \<le> res_end res")
    case True
    then have "unat key + S \<le> unat (res_end res)"
      using k' by (simp add: word_le_nat_alt)
    then have "S \<le> unat (res_end res) - unat key" by simp
    with S0 have "(unat (res_end res) - unat key) div S =
        Suc ((unat (res_end res) - unat key - S) div S)"
      by (rule le_div_geq)
    then show ?thesis
      using True le k' by (simp add: walk_length_def S_def)
  next
    case False
    then have "unat (res_end res) < unat key + S"
      using k' by (simp add: word_le_nat_alt)
    then have "(unat (res_end res) - unat key) div S = 0"
      using 1 by simp
    then show ?thesis
      using False le by (simp add: walk_length_def S_def)
  qed
qed

lemma fold_delete_radix:
  "pgmap_radix (fold radix_tree_delete ds s) = (\<lambda>i. if i \<in> set ds then None else pgmap_radix s i)"
  by (induction ds arbitrary: s) (auto simp: radix_tree_delete_def)

lemma fold_delete_klog:
  "klog (fold radix_tree_delete ds s) = klog s @ map Call_radix_tree_delete ds"
  by (induction ds arbitrary: s) (auto simp: radix_tree_delete_def)

lemma fold_delete_devres:
  "devres (fold radix_tree_delete ds s) = devres s"
  by (induction ds arbitrary: s) (auto simp: radix_tree_delete_def)

lemma release_loop_result:
  assumes sh: "PA_SECTION_SHIFT E < 64"
  shows "\<not> walk_wraps E res key \<Longrightarrow> walk_length E res key = n \<Longrightarrow>
   pgmap_radix_release_loop E res key s =
     Some (fold radix_tree_delete (walk_indices E key n) s)"
proof (induction n arbitrary: key s)
  case 0
  then have "\<not> key \<le> res_end res"
    by (simp add: walk_length_def split: if_splits)
  then show ?case
    by (subst pgmap_radix_release_loop.simps) simp
next
  case (Suc n)
  from Suc.prems(2) have le: "key \<le> res_end res"
    by (simp add: walk_length_def split: if_splits)
  have nw': "\<not> walk_wraps E res (key + SECTION_SIZE E)"
    using Suc.prems(1) sh by (simp add: walk_wraps_step)
  have len: "walk_length E res (key + SECTION_SIZE E) = n"
    using walk_length_step [OF sh Suc.prems(1) le] Suc.prems(2) by simp
  show ?case
    using le Suc.IH [OF nw' len]
    by (subst pgmap_radix_release_loop.simps) simp
qed


lemma release_loop_Some_nowrap:
  assumes "pgmap_radix_release_loop E res key s = Some y"
  shows "PA_SECTION_SHIFT E < 64 \<longrightarrow> \<not> walk_wraps E res key"
proof (rule pgmap_radix_release_loop.raw_induct
    [where P = "\<lambda>E res key s y. PA_SECTION_SHIFT E < 64 \<longrightarrow> \<not> walk_wraps E res key",
      OF _ assms])
  fix f :: "env \<Rightarrow> resource \<Rightarrow> resource_size_t \<Rightarrow> kstate \<Rightarrow> kstate option"
  fix E res key and s y :: kstate
  assume IH: "\<And>E res key s y. f E res key s = Some y \<Longrightarrow>
      PA_SECTION_SHIFT E < 64 \<longrightarrow> \<not> walk_wraps E res key"
  assume step: "(if key \<le> res_end res
      then f E res (key + SECTION_SIZE E)
             (radix_tree_delete (drop_bit (PA_SECTION_SHIFT E) key) s)
      else Some s) = Some y"
  show "PA_SECTION_SHIFT E < 64 \<longrightarrow> \<not> walk_wraps E res key"
  proof
    assume sh: "PA_SECTION_SHIFT E < 64"
    show "\<not> walk_wraps E res key"
    proof (cases "key \<le> res_end res")
      case True
      with step have "f E res (key + SECTION_SIZE E)
          (radix_tree_delete (drop_bit (PA_SECTION_SHIFT E) key) s) = Some y"
        by simp
      then have "\<not> walk_wraps E res (key + SECTION_SIZE E)"
        using IH sh by blast
      then show ?thesis
        using sh by (simp add: walk_wraps_step)
    next
      case False
      then show ?thesis
        using walk_wraps_le [OF sh] by blast
    qed
  qed
qed

lemma release_loop_wraps_None:
  assumes "PA_SECTION_SHIFT E < 64" and "walk_wraps E res key"
  shows "pgmap_radix_release_loop E res key s = None"
proof (cases "pgmap_radix_release_loop E res key s")
  case None
  then show ?thesis .
next
  case (Some y)
  then show ?thesis
    using release_loop_Some_nowrap assms by blast
qed

lemma insert_loop_zero_nowrap:
  assumes "devm_memremap_pages_loop E dev res pm key s = Some r"
  shows "PA_SECTION_SHIFT E < 64 \<and> fst r = 0 \<longrightarrow> \<not> walk_wraps E res key"
proof (rule devm_memremap_pages_loop.raw_induct
    [where P = "\<lambda>E dev res pm key s r.
        PA_SECTION_SHIFT E < 64 \<and> fst r = 0 \<longrightarrow> \<not> walk_wraps E res key",
      OF _ assms])
  fix f :: "env \<Rightarrow> device \<Rightarrow> resource \<Rightarrow> page_map \<Rightarrow> resource_size_t \<Rightarrow> kstate
    \<Rightarrow> (int \<times> kstate) option"
  fix E dev res pm key and s :: kstate and r :: "int \<times> kstate"
  assume IH: "\<And>E dev res pm key s r. f E dev res pm key s = Some r \<Longrightarrow>
      PA_SECTION_SHIFT E < 64 \<and> fst r = 0 \<longrightarrow> \<not> walk_wraps E res key"
  assume step: "(if key \<le> res_end res then
        (case find_dev_pagemap E s key of
           None \<Rightarrow>
             (case radix_tree_insert E (drop_bit (PA_SECTION_SHIFT E) key) pm s of
                (error, s') \<Rightarrow>
                  if error \<noteq> 0
                  then Some (error, s'\<lparr>klog := klog s' @ [Dev_err_failed dev error]\<rparr>)
                  else f E dev res pm (key + SECTION_SIZE E) s')
         | Some dup \<Rightarrow>
             Some (- EBUSY, s\<lparr>klog := klog s @ [Dev_err_collides dev res (pgmap_dev dup)]\<rparr>))
      else Some (0, s)) = Some r"
  show "PA_SECTION_SHIFT E < 64 \<and> fst r = 0 \<longrightarrow> \<not> walk_wraps E res key"
  proof
    assume a: "PA_SECTION_SHIFT E < 64 \<and> fst r = 0"
    then have sh: "PA_SECTION_SHIFT E < 64" and r0: "fst r = 0" by simp_all
    show "\<not> walk_wraps E res key"
    proof (cases "key \<le> res_end res")
      case True
      obtain error s' where ins:
        "radix_tree_insert E (drop_bit (PA_SECTION_SHIFT E) key) pm s = (error, s')"
        by (cases "radix_tree_insert E (drop_bit (PA_SECTION_SHIFT E) key) pm s")
      from True step r0 ins
      have "f E dev res pm (key + SECTION_SIZE E) s' = Some r"
        by (auto simp: EBUSY_def split: option.splits if_splits)
      then have "\<not> walk_wraps E res (key + SECTION_SIZE E)"
        using IH a by blast
      then show ?thesis
        using sh by (simp add: walk_wraps_step)
    next
      case False
      then show ?thesis
        using walk_wraps_le [OF sh] by blast
    qed
  qed
qed

lemma find_dev_pagemap_None:
  "find_dev_pagemap E s key = None \<longleftrightarrow> pgmap_radix s (drop_bit (PA_SECTION_SHIFT E) key) = None"
  by (simp add: find_dev_pagemap_def radix_tree_lookup_def split: option.splits)

lemma insert_loop_result:
  assumes sh: "PA_SECTION_SHIFT E < 64"
  shows "\<not> walk_wraps E res key \<Longrightarrow> walk_length E res key = n \<Longrightarrow>
   devm_memremap_pages_loop E dev res pm key s = Some (0, s1) \<Longrightarrow>
   s1 = s\<lparr>pgmap_radix := (\<lambda>i. if i \<in> set (walk_indices E key n) then Some pm
                                else pgmap_radix s i)\<rparr> \<and>
   (\<forall>i \<in> set (walk_indices E key n). pgmap_radix s i = None)"
proof (induction n arbitrary: key s)
  case 0
  then have "\<not> key \<le> res_end res"
    by (simp add: walk_length_def split: if_splits)
  with "0.prems"(3) show ?case
    by (subst (asm) devm_memremap_pages_loop.simps) simp
next
  case (Suc n)
  from Suc.prems(2) have le: "key \<le> res_end res"
    by (simp add: walk_length_def split: if_splits)
  have nw': "\<not> walk_wraps E res (key + SECTION_SIZE E)"
    using Suc.prems(1) sh by (simp add: walk_wraps_step)
  have len: "walk_length E res (key + SECTION_SIZE E) = n"
    using walk_length_step [OF sh Suc.prems(1) le] Suc.prems(2) by simp
  let ?i = "drop_bit (PA_SECTION_SHIFT E) key"
  let ?s' = "s\<lparr>pgmap_radix := (pgmap_radix s)(?i \<mapsto> pm)\<rparr>"
  from Suc.prems(3) le have absent: "pgmap_radix s ?i = None"
    by (subst (asm) devm_memremap_pages_loop.simps)
      (auto simp: find_dev_pagemap_None EBUSY_def split: option.splits)
  from Suc.prems(3) le absent have rest:
    "devm_memremap_pages_loop E dev res pm (key + SECTION_SIZE E) ?s' = Some (0, s1)"
    by (subst (asm) devm_memremap_pages_loop.simps)
      (auto simp: find_dev_pagemap_None radix_tree_insert_def EBUSY_def ENOMEM_def
        split: option.splits if_splits)
  let ?rest = "walk_indices E (key + SECTION_SIZE E) n"
  from Suc.IH [OF nw' len rest]
  have s1: "s1 = ?s'\<lparr>pgmap_radix := (\<lambda>i. if i \<in> set ?rest then Some pm
                                          else pgmap_radix ?s' i)\<rparr>"
    and none: "\<forall>i \<in> set ?rest. pgmap_radix ?s' i = None"
    by blast+
  from none have notin: "?i \<notin> set ?rest"
    by auto
  from none have none': "\<forall>i \<in> set ?rest. pgmap_radix s i = None"
    by (auto split: if_splits)
  have "s1 = s\<lparr>pgmap_radix := (\<lambda>i. if i \<in> set (?i # ?rest) then Some pm
                                      else pgmap_radix s i)\<rparr>"
    unfolding s1 by (auto simp: fun_eq_iff)
  with none' absent show ?case
    by simp
qed

section \<open>Rollback and release\<close>

lemma pgmap_radix_release_result:
  assumes "PA_SECTION_SHIFT E < 64" and "\<not> walk_wraps E res (res_start res)"
  shows "pgmap_radix_release E res s = Some (fold radix_tree_delete (section_indices E res) s)"
  unfolding pgmap_radix_release_def section_indices_def
  using assms by (rule release_loop_result) simp

lemma insert_success:
  assumes sh: "PA_SECTION_SHIFT E < 64"
    and ins: "devm_memremap_pages_loop E dev res pm (res_start res) s = Some (0, s1)"
  shows "\<not> walk_wraps E res (res_start res)"
    and "s1 = s\<lparr>pgmap_radix := (\<lambda>i. if i \<in> set (section_indices E res) then Some pm
                                      else pgmap_radix s i)\<rparr>"
    and "\<forall>i \<in> set (section_indices E res). pgmap_radix s i = None"
proof -
  show nw: "\<not> walk_wraps E res (res_start res)"
    using insert_loop_zero_nowrap [OF ins] sh by simp
  from insert_loop_result [OF sh nw refl ins]
  show "s1 = s\<lparr>pgmap_radix := (\<lambda>i. if i \<in> set (section_indices E res) then Some pm
                                      else pgmap_radix s i)\<rparr>"
    and "\<forall>i \<in> set (section_indices E res). pgmap_radix s i = None"
    unfolding section_indices_def by blast+
qed

lemma claim_success:
  assumes disjoint: "region_intersects E (res_start res) (resource_size res) = REGION_DISJOINT"
    and claim: "devm_memremap_pages E dev res s = Some (Inr addr, s1)"
  obtains s0 where
    "devm_memremap_pages_loop E dev res \<lparr>pm_res = res, pgmap = \<lparr>pgmap_dev = dev\<rparr>\<rparr>
       (res_start res) s = Some (0, s0)"
    and "pgmap_radix s1 = pgmap_radix s0"
    and "devres s1 = devres s0 @ [(dev, \<lparr>pm_res = res, pgmap = \<lparr>pgmap_dev = dev\<rparr>\<rparr>)]"
    and "\<exists>nid. klog s1 = klog s0 @
           [Call_arch_add_memory nid (align_start E res) (align_size E res)]"
  using assms
  by (auto simp: devm_memremap_pages_def Let_def split: if_splits option.splits prod.splits)

lemmas env_dev_eval = env_dev_def SECTION_SIZE_def find_dev_pagemap_def radix_tree_lookup_def
  radix_tree_insert_def radix_tree_delete_def align_start_def align_size_def ALIGN_def
  resource_size_def pgmap_radix_release_def

lemma section_indices_res_a: "section_indices env_dev res_a = [0x80]"
  by (simp add: section_indices_def walk_length_def env_dev_def res_a_def SECTION_SIZE_def)

lemma claim_res_a:
  "devm_memremap_pages env_dev 1 res_a state0 = Some (Inr 0xFFFF800010000000, state_a)"
  by (simp add: devm_memremap_pages_def Let_def env_dev_eval
      devm_memremap_pages_loop.simps pgmap_radix_release_loop.simps
      res_a_def state0_def state_a_def page_map_a_def)

text \<open>
  C7. When the insertion loop has succeeded and \<open>arch_add_memory\<close> fails,
  \<open>devm_memremap_pages\<close> returns \<open>ERR_PTR\<close> of the error \<open>arch_add_memory\<close> gave, after
  deleting every entry it had inserted: the radix tree is the one before the call,
  the devres list is unchanged, and the deletions follow the hotplug attempt in the log.
\<close>

theorem hotplug_failure_rolls_back:
  assumes sh: "PA_SECTION_SHIFT E < 64"
    and disjoint: "region_intersects E (res_start res) (resource_size res) = REGION_DISJOINT"
    and alloc: "\<not> devres_alloc_node_fails E"
    and ins: "devm_memremap_pages_loop E dev res \<lparr>pm_res = res, pgmap = \<lparr>pgmap_dev = dev\<rparr>\<rparr>
                (res_start res) s = Some (0, s1)"
    and nid: "nid = (if dev_to_node E dev < 0 then numa_mem_id E else dev_to_node E dev)"
    and hotplug: "arch_add_memory E nid (align_start E res) (align_size E res) \<noteq> 0"
  shows "\<exists>s'. devm_memremap_pages E dev res s =
            Some (Inl (arch_add_memory E nid (align_start E res) (align_size E res)), s') \<and>
          pgmap_radix s' = pgmap_radix s \<and>
          devres s' = devres s \<and>
          (\<forall>i. pgmap_radix s1 i \<noteq> pgmap_radix s i \<longrightarrow> pgmap_radix s' i = None) \<and>
          klog s' = klog s @
            Call_arch_add_memory nid (align_start E res) (align_size E res) #
            map Call_radix_tree_delete (section_indices E res)"
proof -
  let ?pm = "\<lparr>pm_res = res, pgmap = \<lparr>pgmap_dev = dev\<rparr>\<rparr>"
  let ?ev = "Call_arch_add_memory nid (align_start E res) (align_size E res)"
  let ?s2 = "s1\<lparr>klog := klog s1 @ [?ev]\<rparr>"
  let ?s' = "fold radix_tree_delete (section_indices E res) ?s2"
  note facts = insert_success [OF sh ins]
  have rel: "pgmap_radix_release E res ?s2 = Some ?s'"
    using sh facts(1) by (rule pgmap_radix_release_result)
  have call: "devm_memremap_pages E dev res s =
      Some (Inl (arch_add_memory E nid (align_start E res) (align_size E res)), ?s')"
    using disjoint alloc ins hotplug rel
    by (simp add: devm_memremap_pages_def Let_def nid)
  have r1: "pgmap_radix s1 = (\<lambda>i. if i \<in> set (section_indices E res) then Some ?pm
                                    else pgmap_radix s i)"
    and d1: "devres s1 = devres s" and l1: "klog s1 = klog s"
    using facts(2) by simp_all
  have radix: "pgmap_radix ?s' = pgmap_radix s"
    using facts(3) by (auto simp: fold_delete_radix r1 fun_eq_iff)
  have dres: "devres ?s' = devres s"
    by (simp add: fold_delete_devres d1)
  have gone: "\<forall>i. pgmap_radix s1 i \<noteq> pgmap_radix s i \<longrightarrow> pgmap_radix ?s' i = None"
    by (simp add: fold_delete_radix r1)
  have log: "klog ?s' = klog s @ ?ev # map Call_radix_tree_delete (section_indices E res)"
    by (simp add: fold_delete_klog l1)
  from call radix dres gone log show ?thesis
    by blast
qed

theorem hotplug_failure_rolls_back_witness:
  "PA_SECTION_SHIFT env_hotplug_fails < 64 \<and>
   region_intersects env_hotplug_fails (res_start res_a) (resource_size res_a) = REGION_DISJOINT \<and>
   \<not> devres_alloc_node_fails env_hotplug_fails \<and>
   devm_memremap_pages_loop env_hotplug_fails 1 res_a
      \<lparr>pm_res = res_a, pgmap = \<lparr>pgmap_dev = 1\<rparr>\<rparr> (res_start res_a) state0 =
     Some (0, state0\<lparr>pgmap_radix := [0x80 \<mapsto> page_map_a]\<rparr>) \<and>
   arch_add_memory env_hotplug_fails 0 (align_start env_hotplug_fails res_a)
      (align_size env_hotplug_fails res_a) \<noteq> 0 \<and>
   (\<exists>s'. devm_memremap_pages env_hotplug_fails 1 res_a state0 = Some (Inl (- 12), s') \<and>
      pgmap_radix s' = pgmap_radix state0 \<and> devres s' = devres state0)"
proof -
  have 1: "PA_SECTION_SHIFT env_hotplug_fails < 64"
    by (simp add: env_hotplug_fails_def env_dev_def)
  have 2: "region_intersects env_hotplug_fails (res_start res_a) (resource_size res_a) =
      REGION_DISJOINT"
    by (simp add: env_hotplug_fails_def env_dev_def)
  have 3: "\<not> devres_alloc_node_fails env_hotplug_fails"
    by (simp add: env_hotplug_fails_def env_dev_def)
  have 4: "devm_memremap_pages_loop env_hotplug_fails 1 res_a
      \<lparr>pm_res = res_a, pgmap = \<lparr>pgmap_dev = 1\<rparr>\<rparr> (res_start res_a) state0 =
     Some (0, state0\<lparr>pgmap_radix := [0x80 \<mapsto> page_map_a]\<rparr>)"
    by (simp add: devm_memremap_pages_loop.simps env_hotplug_fails_def env_dev_eval
        res_a_def state0_def page_map_a_def)
  have 5: "(0::int) = (if dev_to_node env_hotplug_fails 1 < 0 then numa_mem_id env_hotplug_fails
      else dev_to_node env_hotplug_fails 1)"
    by (simp add: env_hotplug_fails_def env_dev_def)
  have 6: "arch_add_memory env_hotplug_fails 0 (align_start env_hotplug_fails res_a)
      (align_size env_hotplug_fails res_a) \<noteq> 0"
    by (simp add: env_hotplug_fails_def env_dev_def)
  have 7: "arch_add_memory env_hotplug_fails 0 (align_start env_hotplug_fails res_a)
      (align_size env_hotplug_fails res_a) = - 12"
    by (simp add: env_hotplug_fails_def env_dev_def)
  from hotplug_failure_rolls_back [OF 1 2 3 4 5 6]
  have "\<exists>s'. devm_memremap_pages env_hotplug_fails 1 res_a state0 = Some (Inl (- 12), s') \<and>
      pgmap_radix s' = pgmap_radix state0 \<and> devres s' = devres state0"
    unfolding 7 by blast
  with 1 2 3 4 6 show ?thesis
    by blast
qed

text \<open>
  C8. After a successful claim of a range disjoint from System RAM the page_map is on the
  devres list, the aligned range has been handed to \<open>arch_add_memory\<close>, and the entries
  the claim inserted are those of the section walk. Run in
  any later state, its release function \<open>devm_memremap_pages_release\<close> returns, and what
  it adds to the log is the deletion of every index of the walk followed by the one call
  of \<open>arch_remove_memory\<close> on the aligned range: every deletion precedes the removal,
  and after it no index of the walk is in the radix tree.
\<close>

theorem release_hook_order:
  assumes sh: "PA_SECTION_SHIFT E < 64"
    and disjoint: "region_intersects E (res_start res) (resource_size res) = REGION_DISJOINT"
    and claim: "devm_memremap_pages E dev res s = Some (Inr addr, s1)"
    and pm: "page_map = \<lparr>pm_res = res, pgmap = \<lparr>pgmap_dev = dev\<rparr>\<rparr>"
  shows "devres s1 = devres s @ [(dev, page_map)] \<and>
         (\<exists>nid. klog s1 = klog s @
            [Call_arch_add_memory nid (align_start E res) (align_size E res)]) \<and>
         {i. pgmap_radix s1 i \<noteq> pgmap_radix s i} = set (section_indices E res) \<and>
         (\<exists>t'. devm_memremap_pages_release E page_map t = Some t' \<and>
            klog t' = klog t @ map Call_radix_tree_delete (section_indices E res) @
              [Call_arch_remove_memory (align_start E res) (align_size E res)] \<and>
            (\<forall>i \<in> set (section_indices E res). pgmap_radix t' i = None))"
proof -
  from disjoint claim obtain s0 where
    ins: "devm_memremap_pages_loop E dev res page_map (res_start res) s = Some (0, s0)"
    and r1: "pgmap_radix s1 = pgmap_radix s0"
    and d1: "devres s1 = devres s0 @ [(dev, page_map)]"
    and l1: "\<exists>nid. klog s1 = klog s0 @
        [Call_arch_add_memory nid (align_start E res) (align_size E res)]"
    unfolding pm by (rule claim_success)
  note facts = insert_success [OF sh ins]
  have r0: "pgmap_radix s0 = (\<lambda>i. if i \<in> set (section_indices E res) then Some page_map
                                    else pgmap_radix s i)"
    and d0: "devres s0 = devres s" and l0: "klog s0 = klog s"
    using facts(2) by simp_all
  have hook: "devres s1 = devres s @ [(dev, page_map)]"
    by (simp add: d1 d0)
  have added: "\<exists>nid. klog s1 = klog s @
      [Call_arch_add_memory nid (align_start E res) (align_size E res)]"
    using l1 by (simp add: l0)
  have inserted: "{i. pgmap_radix s1 i \<noteq> pgmap_radix s i} = set (section_indices E res)"
    using facts(3) by (auto simp: r1 r0)
  let ?t1 = "fold radix_tree_delete (section_indices E res) t"
  let ?t' = "?t1\<lparr>klog := klog ?t1 @
      [Call_arch_remove_memory (align_start E res) (align_size E res)]\<rparr>"
  have "pgmap_radix_release E res t = Some ?t1"
    using sh facts(1) by (rule pgmap_radix_release_result)
  then have rel: "devm_memremap_pages_release E page_map t = Some ?t'"
    by (simp add: devm_memremap_pages_release_def pm)
  have log: "klog ?t' = klog t @ map Call_radix_tree_delete (section_indices E res) @
      [Call_arch_remove_memory (align_start E res) (align_size E res)]"
    by (simp add: fold_delete_klog)
  have gone: "\<forall>i \<in> set (section_indices E res). pgmap_radix ?t' i = None"
    by (simp add: fold_delete_radix)
  from hook added inserted rel log gone show ?thesis
    by blast
qed

theorem release_hook_order_witness:
  "PA_SECTION_SHIFT env_dev < 64 \<and>
   region_intersects env_dev (res_start res_a) (resource_size res_a) = REGION_DISJOINT \<and>
   devm_memremap_pages env_dev 1 res_a state0 = Some (Inr 0xFFFF800010000000, state_a) \<and>
   devres state_a = devres state0 @ [(1, page_map_a)] \<and>
   (\<exists>t'. devm_memremap_pages_release env_dev page_map_a state_a = Some t' \<and>
      klog t' = klog state_a @
        [Call_radix_tree_delete 0x80, Call_arch_remove_memory 0x10000000 0x200000] \<and>
      pgmap_radix t' 0x80 = None)"
proof -
  have 1: "PA_SECTION_SHIFT env_dev < 64"
    by (simp add: env_dev_def)
  have 2: "region_intersects env_dev (res_start res_a) (resource_size res_a) = REGION_DISJOINT"
    by (simp add: env_dev_def)
  have 3: "page_map_a = \<lparr>pm_res = res_a, pgmap = \<lparr>pgmap_dev = 1\<rparr>\<rparr>"
    by (simp add: page_map_a_def)
  have 4: "align_start env_dev res_a = 0x10000000" "align_size env_dev res_a = 0x200000"
    by (simp_all add: env_dev_eval res_a_def)
  from release_hook_order [OF 1 2 claim_res_a 3, of state_a]
  have "devres state_a = devres state0 @ [(1, page_map_a)] \<and>
    (\<exists>t'. devm_memremap_pages_release env_dev page_map_a state_a = Some t' \<and>
      klog t' = klog state_a @
        [Call_radix_tree_delete 0x80, Call_arch_remove_memory 0x10000000 0x200000] \<and>
      pgmap_radix t' 0x80 = None)"
    unfolding section_indices_res_a 4 by simp
  with 1 2 claim_res_a show ?thesis
    by blast
qed

text \<open>
  C9, as amended. For a range whose section walk does not wrap around the end of the
  64-bit address space, \<open>pgmap_radix_release\<close> returns; applied once more to its own
  result it leaves the radix tree as the first application left it; and applied to a
  state in which the sections of the walk are absent it leaves the radix tree unchanged.
\<close>

theorem remove_absent_range:
  assumes sh: "PA_SECTION_SHIFT E < 64"
    and nw: "\<not> walk_wraps E res (res_start res)"
  shows "\<exists>s1 s2. pgmap_radix_release E res s = Some s1 \<and>
           pgmap_radix_release E res s1 = Some s2 \<and>
           pgmap_radix s2 = pgmap_radix s1 \<and>
           ((\<forall>i \<in> set (section_indices E res). pgmap_radix s i = None) \<longrightarrow>
              pgmap_radix s1 = pgmap_radix s)"
proof -
  let ?s1 = "fold radix_tree_delete (section_indices E res) s"
  let ?s2 = "fold radix_tree_delete (section_indices E res) ?s1"
  have 1: "pgmap_radix_release E res s = Some ?s1"
    using sh nw by (rule pgmap_radix_release_result)
  have 2: "pgmap_radix_release E res ?s1 = Some ?s2"
    using sh nw by (rule pgmap_radix_release_result)
  have 3: "pgmap_radix ?s2 = pgmap_radix ?s1"
    by (auto simp: fold_delete_radix)
  have 4: "(\<forall>i \<in> set (section_indices E res). pgmap_radix s i = None) \<longrightarrow>
      pgmap_radix ?s1 = pgmap_radix s"
    by (auto simp: fold_delete_radix fun_eq_iff)
  from 1 2 3 4 show ?thesis
    by blast
qed

theorem remove_absent_range_witness:
  "PA_SECTION_SHIFT env_dev < 64 \<and> \<not> walk_wraps env_dev res_a (res_start res_a) \<and>
   pgmap_radix state_ab 0x80 = None \<and>
   (\<exists>s1 s2. pgmap_radix_release env_dev res_a state_ab = Some s1 \<and>
      pgmap_radix_release env_dev res_a s1 = Some s2 \<and>
      pgmap_radix s2 = pgmap_radix s1 \<and> pgmap_radix s1 = pgmap_radix state_ab)"
proof -
  have 1: "PA_SECTION_SHIFT env_dev < 64"
    by (simp add: env_dev_def)
  have 2: "\<not> walk_wraps env_dev res_a (res_start res_a)"
    by (simp add: walk_wraps_def env_dev_def res_a_def)
  have 3: "pgmap_radix state_ab 0x80 = None"
    by (simp add: state_ab_def)
  from remove_absent_range [OF 1 2, of state_ab] 3
  have "\<exists>s1 s2. pgmap_radix_release env_dev res_a state_ab = Some s1 \<and>
      pgmap_radix_release env_dev res_a s1 = Some s2 \<and>
      pgmap_radix s2 = pgmap_radix s1 \<and> pgmap_radix s1 = pgmap_radix state_ab"
    unfolding section_indices_res_a by simp
  with 1 2 3 show ?thesis
    by blast
qed

lemma walk_wraps_res_top: "walk_wraps env_dev res_top (res_start res_top)"
  by (simp add: walk_wraps_def env_dev_def res_top_def)

text \<open>
  C9 as stated fails: on a range in the last section of the address space the key wraps
  to 0 after the first deletion and stays at most \<open>end\<close> for ever; the loop never
  returns, although the registry is empty.
\<close>

theorem remove_absent_range_counterexample:
  "pgmap_radix state0 = Map.empty \<and> pgmap_radix_release env_dev res_top state0 = None"
proof -
  have "PA_SECTION_SHIFT env_dev < 64"
    by (simp add: env_dev_def)
  then have "pgmap_radix_release_loop env_dev res_top (res_start res_top) state0 = None"
    using walk_wraps_res_top by (rule release_loop_wraps_None)
  then show ?thesis
    by (simp add: pgmap_radix_release_def state0_def)
qed

section \<open>Two defects of the section walk\<close>

text \<open>
  C1, on the code. Device 1 claims \<open>res_a\<close> (section 0x80) in the empty state; device 2
  then claims \<open>res_b\<close>, which shares section 0x80. The second claim fails with
  \<open>-EBUSY\<close> and the log names device 1, but the error path runs \<open>pgmap_radix_release\<close>
  over the whole of \<open>res_b\<close>: it deletes index 0x80, which the failed claim never
  inserted. The first owner's entry is gone and the radix tree is not the one before the
  attempt.
\<close>

theorem failed_claim_deletes_first_owner:
  "devm_memremap_pages env_dev 1 res_a state0 = Some (Inr 0xFFFF800010000000, state_a) \<and>
   find_dev_pagemap env_dev state_a 0x10000000 = Some \<lparr>pgmap_dev = 1\<rparr> \<and>
   devm_memremap_pages env_dev 2 res_b state_a = Some (Inl (- EBUSY), state_ab) \<and>
   find_dev_pagemap env_dev state_ab 0x10000000 = None \<and>
   pgmap_radix state_ab \<noteq> pgmap_radix state_a"
proof -
  note 1 = claim_res_a
  have 2: "devm_memremap_pages env_dev 2 res_b state_a = Some (Inl (- EBUSY), state_ab)"
    by (simp add: devm_memremap_pages_def Let_def env_dev_eval
        devm_memremap_pages_loop.simps pgmap_radix_release_loop.simps
        res_a_def res_b_def state_ab_def state_a_def page_map_a_def EBUSY_def)
  have 3: "find_dev_pagemap env_dev state_a 0x10000000 = Some \<lparr>pgmap_dev = 1\<rparr>"
    "find_dev_pagemap env_dev state_ab 0x10000000 = None"
    by (simp_all add: env_dev_eval state_a_def state_ab_def page_map_a_def)
  have 4: "pgmap_radix state_ab \<noteq> pgmap_radix state_a"
    by (auto simp: state_a_def state_ab_def fun_eq_iff)
  from 1 2 3 4 show ?thesis
    by blast
qed

text \<open>
  C3, on the code. Device 2 claims \<open>res_b\<close>, which starts in the middle of section 0x80
  and ends in the middle of section 0x81. The loop starts at the unaligned \<open>start\<close> and
  steps by \<open>SECTION_SIZE\<close>: its second key is beyond \<open>end\<close>, so only index 0x80 is
  inserted. The claim succeeds, and the address 0x10200000, inside the range, resolves
  to no owner.
\<close>

theorem unaligned_claim_misses_last_section:
  "devm_memremap_pages env_dev 2 res_b state0 = Some (Inr 0xFFFF800010100000, state_b) \<and>
   res_start res_b \<le> 0x10200000 \<and> 0x10200000 \<le> res_end res_b \<and>
   find_dev_pagemap env_dev state_b 0x10200000 = None"
proof -
  have 1: "devm_memremap_pages env_dev 2 res_b state0 = Some (Inr 0xFFFF800010100000, state_b)"
    by (simp add: devm_memremap_pages_def Let_def env_dev_eval
        devm_memremap_pages_loop.simps pgmap_radix_release_loop.simps
        res_b_def state0_def state_b_def page_map_b_def)
  have 2: "res_start res_b \<le> 0x10200000" "0x10200000 \<le> res_end res_b"
    by (simp_all add: res_b_def)
  have 3: "find_dev_pagemap env_dev state_b 0x10200000 = None"
    by (simp add: env_dev_eval state_b_def)
  from 1 2 3 show ?thesis
    by blast
qed

end
